theory Spec2Isabelle
  imports Main
begin

section \<open>Python values, exceptions and the environment\<close>

text \<open>
  The exceptions that \<^verbatim>\<open>lib/SMQTK/Indexers/__init__.py\<close> raises itself
  (\<^verbatim>\<open>RuntimeError\<close>, \<^verbatim>\<open>ValueError\<close>, each with its argument tuple) and
  the ones raised on its behalf: by \<^verbatim>\<open>issubclass\<close> and \<^verbatim>\<open>hasattr\<close>
  (\<^verbatim>\<open>TypeError\<close>), by a missing attribute (\<^verbatim>\<open>AttributeError\<close>), by a failed
  import, and by \<^verbatim>\<open>os.makedirs\<close> (\<^verbatim>\<open>OSError\<close> with its \<^verbatim>\<open>errno\<close>).
\<close>

datatype errno = EEXIST | ENOENT | ENOTDIR | EACCES | EROFS

datatype pyerror =
    RuntimeError "string list"
  | ValueError "string list"
  | TypeError
  | AttributeError
  | ImportError
  | OSError errno

text \<open>
  The objects a plugin module can bind to a name, as far as discovery tells them apart:
  a class carries its defining module, its \<^verbatim>\<open>__name__\<close> and its base classes;
  a function has a \<^verbatim>\<open>__name__\<close> but is no class; the others have neither.
\<close>

datatype pyobj =
    PyNone
  | PyInt int
  | PyStr string
  | PyList "pyobj list"
  | PyTuple "pyobj list"
  | PyFunction string
  | PyClass (cls_module: string) (cls_name: string) (cls_bases: "pyobj list")

text \<open>A module is what \<^verbatim>\<open>hasattr\<close> and \<^verbatim>\<open>getattr\<close> see of it: its attributes by name,
  \<^verbatim>\<open>__name__\<close> among them. The registry is a dict from class name to class.\<close>

type_synonym pymodule = "string \<rightharpoonup> pyobj"

type_synonym class_map = "string \<rightharpoonup> pyobj"

text \<open>
  What discovery reads from outside: the entries \<^verbatim>\<open>os.listdir(this_dir)\<close> returns, in the
  order it returns them, and the result of \<^verbatim>\<open>__import__(module_path, fromlist=__name__)\<close>
  for each dotted path (the module, or the exception the import raises).
\<close>

record pyenv =
  os_listdir :: "string list"
  py_import :: "string \<Rightarrow> pyerror + pymodule"

text \<open>
  What the directory properties call: \<^verbatim>\<open>os.path.isdir\<close>, a query, and
  \<^verbatim>\<open>os.makedirs\<close>, which returns or raises an \<^verbatim>\<open>OSError\<close> and in either case leaves a
  file system behind (a failed call may have created some of the parents). Both belong to
  the platform, not to the repository, so the methods below take them as a parameter and
  nothing is assumed about them; \<open>'fs\<close> is the state of the file system.
\<close>

record 'fs os_module =
  os_path_isdir :: "'fs \<Rightarrow> string \<Rightarrow> bool"
  os_makedirs :: "'fs \<Rightarrow> string \<Rightarrow> (errno + unit) \<times> 'fs"

text \<open>\<^verbatim>\<open>str.rfind\<close> for a single character: the highest index, or -1.\<close>

fun rfind :: "char \<Rightarrow> string \<Rightarrow> int" where
  "rfind c [] = -1"
| "rfind c (x # xs) =
     (let r = rfind c xs in if 0 \<le> r then r + 1 else if x = c then 0 else -1)"

section \<open>The Indexer base class\<close>

text \<open>
  \<^verbatim>\<open>Indexer.__init__\<close> stores the two paths in \<^verbatim>\<open>_data_dir\<close> and \<^verbatim>\<open>_work_dir\<close>. The record is
  extensible: the fields of a concrete indexer live in its extension. \<^verbatim>\<open>has_model\<close> is
  abstract, so every method below takes the implementation's \<^verbatim>\<open>has_model\<close> as an
  argument. Each method returns what it raises or returns, the instance and the file
  system.
\<close>

record indexer =
  priv_data_dir :: string
  priv_work_dir :: string

definition init_indexer :: "string \<Rightarrow> string \<Rightarrow> indexer" where
  "init_indexer data_dir_arg work_dir_arg =
     \<lparr>priv_data_dir = data_dir_arg, priv_work_dir = work_dir_arg\<rparr>"

text \<open>Lines 66-74 and 76-84. An \<^verbatim>\<open>OSError\<close> of \<^verbatim>\<open>os.makedirs\<close> leaves the property before
  the \<^verbatim>\<open>return\<close>.\<close>

definition data_dir ::
  "'fs os_module \<Rightarrow> 'a indexer_scheme \<Rightarrow> 'fs \<Rightarrow> (pyerror + string) \<times> 'fs" where
  "data_dir os self fs =
     (if \<not> os_path_isdir os fs (priv_data_dir self) then
        (case os_makedirs os fs (priv_data_dir self) of
           (Inl e, fs') \<Rightarrow> (Inl (OSError e), fs')
         | (Inr u, fs') \<Rightarrow> (Inr (priv_data_dir self), fs'))
      else (Inr (priv_data_dir self), fs))"

definition work_dir ::
  "'fs os_module \<Rightarrow> 'a indexer_scheme \<Rightarrow> 'fs \<Rightarrow> (pyerror + string) \<times> 'fs" where
  "work_dir os self fs =
     (if \<not> os_path_isdir os fs (priv_work_dir self) then
        (case os_makedirs os fs (priv_work_dir self) of
           (Inl e, fs') \<Rightarrow> (Inl (OSError e), fs')
         | (Inr u, fs') \<Rightarrow> (Inr (priv_work_dir self), fs'))
      else (Inr (priv_work_dir self), fs))"

text \<open>The message of lines 122-129, with the data directory substituted for \<^verbatim>\<open>%s\<close>.\<close>

definition model_exists_message :: "string \<Rightarrow> string" where
  "model_exists_message location =
     [CHR 0x0A] @ ''!!! Warning !!! Warning !!! Warning !!!'' @ [CHR 0x0A] @
     ''A model already exists for this indexer! '' @
     ''Make sure that you really want to do this by moving / '' @
     ''deleting the existing model (file(s)). Model location: '' @
     location @ [CHR 0x0A] @
     ''!!! Warning !!! Warning !!! Warning !!!''"

text \<open>A feature map is a dict from integer id to feature data; \<^verbatim>\<open>not feature_map\<close> holds
  exactly of the dict without entries.\<close>

type_synonym 'v feature_map = "(int \<times> 'v) list"

text \<open>Lines 120-132. The argument of \<^verbatim>\<open>RuntimeError\<close> is built first, and it reads the
  property \<^verbatim>\<open>self.data_dir\<close>: an exception in there replaces the \<^verbatim>\<open>RuntimeError\<close>.\<close>

definition generate_model ::
  "'fs os_module \<Rightarrow> ('a indexer_scheme \<Rightarrow> 'fs \<Rightarrow> bool) \<Rightarrow> 'a indexer_scheme \<Rightarrow>
   'v feature_map \<Rightarrow> int option \<Rightarrow> 'fs \<Rightarrow> (pyerror + unit) \<times> 'a indexer_scheme \<times> 'fs" where
  "generate_model os has_model self feature_map parallel fs =
     (if has_model self fs then
        (case data_dir os self fs of
           (Inl e, fs') \<Rightarrow> (Inl e, self, fs')
         | (Inr location, fs') \<Rightarrow>
             (Inl (RuntimeError [model_exists_message location]), self, fs'))
      else if feature_map = [] then
        (Inl (ValueError [''The given feature_map has no content.'']), self, fs)
      else (Inr (), self, fs))"

definition extend_model ::
  "('a indexer_scheme \<Rightarrow> 'fs \<Rightarrow> bool) \<Rightarrow> 'a indexer_scheme \<Rightarrow> 'v feature_map \<Rightarrow>
   int option \<Rightarrow> 'fs \<Rightarrow> (pyerror + unit) \<times> 'a indexer_scheme \<times> 'fs" where
  "extend_model has_model self id_feature_map parallel fs =
     (if \<not> has_model self fs then
        (Inl (RuntimeError [''No model available for this indexer.'']), self, fs)
      else (Inr (), self, fs))"

definition rank_model ::
  "('a indexer_scheme \<Rightarrow> 'fs \<Rightarrow> bool) \<Rightarrow> 'a indexer_scheme \<Rightarrow> int list \<Rightarrow>
   int list \<Rightarrow> 'fs \<Rightarrow> (pyerror + unit) \<times> 'a indexer_scheme \<times> 'fs" where
  "rank_model has_model self pos_ids neg_ids fs =
     (if \<not> has_model self fs then
        (Inl (RuntimeError [''No model available for this indexer.'']), self, fs)
      else (Inr (), self, fs))"

definition reset ::
  "('a indexer_scheme \<Rightarrow> 'fs \<Rightarrow> bool) \<Rightarrow> 'a indexer_scheme \<Rightarrow> 'fs \<Rightarrow>
   (pyerror + unit) \<times> 'a indexer_scheme \<times> 'fs" where
  "reset has_model self fs =
     (if \<not> has_model self fs then
        (Inl (RuntimeError [''No model available for this indexer to reset to.'']), self, fs)
      else (Inr (), self, fs))"

section \<open>Plugin discovery\<close>

text \<open>The package's \<^verbatim>\<open>__name__\<close>: the file is \<^verbatim>\<open>lib/SMQTK/Indexers/__init__.py\<close>.\<close>

definition package_name :: string where
  "package_name = ''SMQTK.Indexers''"

definition object_class :: pyobj where
  "object_class = PyClass ''__builtin__'' ''object'' []"

definition Indexer :: pyobj where
  "Indexer = PyClass package_name ''Indexer'' [object_class]"

definition standard_var :: string where
  "standard_var = ''INDEXER_CLASS''"

text \<open>
  \<^verbatim>\<open>file_re = re.compile("^[a-zA-Z].*(?:\.py)?$")\<close> under \<^verbatim>\<open>file_re.match\<close>: the first
  character is in \<^verbatim>\<open>[a-zA-Z]\<close>, \<^verbatim>\<open>.*\<close> runs over anything but a line feed, the
  optional group may match nothing, and \<^verbatim>\<open>$\<close> stands at the end of the string or
  before a line feed that ends it.
\<close>

definition is_ascii_letter :: "char \<Rightarrow> bool" where
  "is_ascii_letter c =
     (let n = (of_char c :: nat) in (97 \<le> n \<and> n \<le> 122) \<or> (65 \<le> n \<and> n \<le> 90))"

definition file_re_match :: "string \<Rightarrow> bool" where
  "file_re_match s =
     (case s of
        [] \<Rightarrow> False
      | c # cs \<Rightarrow> is_ascii_letter c \<and> CHR 0x0A \<notin> set (butlast cs))"

text \<open>
  \<^verbatim>\<open>os.path.splitext\<close> (posixpath): the extension starts at the last dot of the last
  path component, unless only dots come before it in that component.
\<close>

definition os_path_splitext :: "string \<Rightarrow> string \<times> string" where
  "os_path_splitext p =
     (let sepIndex = rfind (CHR ''/'') p;
          dotIndex = rfind (CHR ''.'') p
      in if dotIndex > sepIndex \<and>
            list_ex (\<lambda>c. c \<noteq> CHR ''.'')
              (take (nat (dotIndex - (sepIndex + 1))) (drop (nat (sepIndex + 1)) p))
         then (take (nat dotIndex) p, drop (nat dotIndex) p)
         else (p, []))"

definition hasattr :: "pymodule \<Rightarrow> string \<Rightarrow> bool" where
  "hasattr module n = (module n \<noteq> None)"

definition getattr :: "pymodule \<Rightarrow> string \<Rightarrow> pyobj \<Rightarrow> pyobj" where
  "getattr module n dflt = (case module n of Some v \<Rightarrow> v | None \<Rightarrow> dflt)"

text \<open>
  \<^verbatim>\<open>issubclass(c, Indexer)\<close>. \<^verbatim>\<open>Indexer\<close> has the metaclass \<^verbatim>\<open>abc.ABCMeta\<close>, so the
  test is \<^verbatim>\<open>ABCMeta.__subclasscheck__\<close> of Python 2: it looks for \<^verbatim>\<open>Indexer\<close> among the
  ancestors of \<^verbatim>\<open>c\<close> (the package registers no virtual subclass), and before it answers
  False it puts \<^verbatim>\<open>c\<close> into a set of weak references. An object with no ancestors that
  can be weakly referenced, such as a function, is therefore no subclass; one that
  cannot (\<^verbatim>\<open>None\<close>, an int, a str, a list, a tuple) raises a \<^verbatim>\<open>TypeError\<close>.
\<close>

fun is_subclass_of :: "pyobj \<Rightarrow> pyobj \<Rightarrow> bool" where
  "is_subclass_of (PyClass m n bs) t =
     (PyClass m n bs = t \<or> list_ex (\<lambda>b. is_subclass_of b t) bs)"
| "is_subclass_of _ t = False"

fun issubclass :: "pyobj \<Rightarrow> pyobj \<Rightarrow> pyerror + bool" where
  "issubclass (PyClass m n bs) t = Inr (is_subclass_of (PyClass m n bs) t)"
| "issubclass (PyFunction n) t = Inr False"
| "issubclass _ t = Inl TypeError"

text \<open>\<^verbatim>\<open>cls.__name__\<close>.\<close>

fun py_name :: "pyobj \<Rightarrow> pyerror + string" where
  "py_name (PyClass m n bs) = Inr n"
| "py_name (PyFunction n) = Inr n"
| "py_name _ = Inl AttributeError"

text \<open>
  Lines 241-268 of \<^verbatim>\<open>get_indexers\<close>: the value of \<^verbatim>\<open>cl_classes\<close> when the loop of
  line 270 is reached, or the exception raised before.
\<close>

definition load_cl_classes :: "string \<Rightarrow> pymodule \<Rightarrow> pyerror + pyobj list" where
  "load_cl_classes module_name module =
     (if hasattr module standard_var then
        (case getattr module standard_var PyNone of
           PyList xs \<Rightarrow> Inr xs
         | PyTuple xs \<Rightarrow> Inr xs
         | cl_classes \<Rightarrow>
             (case issubclass cl_classes Indexer of
                Inl e \<Rightarrow> Inl e
              | Inr True \<Rightarrow> Inr [cl_classes]
              | Inr False \<Rightarrow>
                  Inl (RuntimeError
                    [''[%s] %s variable not set to a valid value.'', module_name])))
      else
        (case module ''__name__'' of
           None \<Rightarrow> Inl AttributeError
         | Some (PyStr own_name) \<Rightarrow>
             if hasattr module own_name then
               (let cl_classes = getattr module own_name PyNone in
                case issubclass cl_classes Indexer of
                  Inl e \<Rightarrow> Inl e
                | Inr True \<Rightarrow> Inr [cl_classes]
                | Inr False \<Rightarrow>
                    Inl (RuntimeError
                      [''[%s] Failed to find valid class by module name'', module_name]))
             else Inr []
         | Some _ \<Rightarrow> Inl TypeError))"

text \<open>Lines 270-271: \<^verbatim>\<open>for cls in cl_classes: class_map[cls.__name__] = cls\<close>.\<close>

fun register_cl_classes :: "pyobj list \<Rightarrow> class_map \<Rightarrow> pyerror + class_map" where
  "register_cl_classes [] class_map = Inr class_map"
| "register_cl_classes (cls # rest) class_map =
     (case py_name cls of
        Inl e \<Rightarrow> Inl e
      | Inr n \<Rightarrow> register_cl_classes rest (class_map(n \<mapsto> cls)))"

text \<open>The loop of line 231 over the directory entries, with \<^verbatim>\<open>class_map\<close> as it stands.\<close>

fun get_indexers_loop ::
  "(string \<Rightarrow> pyerror + pymodule) \<Rightarrow> string list \<Rightarrow> class_map \<Rightarrow> pyerror + class_map" where
  "get_indexers_loop import [] class_map = Inr class_map"
| "get_indexers_loop import (module_file # rest) class_map =
     (if file_re_match module_file then
        (let module_name = fst (os_path_splitext module_file);
             module_path = package_name @ ''.'' @ module_name
         in case import module_path of
              Inl e \<Rightarrow> Inl e
            | Inr module \<Rightarrow>
                (case load_cl_classes module_name module of
                   Inl e \<Rightarrow> Inl e
                 | Inr cl_classes \<Rightarrow>
                     (case register_cl_classes cl_classes class_map of
                        Inl e \<Rightarrow> Inl e
                      | Inr class_map' \<Rightarrow> get_indexers_loop import rest class_map')))
      else get_indexers_loop import rest class_map)"

definition get_indexers :: "pyenv \<Rightarrow> pyerror + class_map" where
  "get_indexers env = get_indexers_loop (py_import env) (os_listdir env) Map.empty"

section \<open>The registry in the words of the specification\<close>


section \<open>Concrete plugin directories and instances\<close>

text \<open>An importer that knows one module. Each module below is given as the import system
  returns it: its \<^verbatim>\<open>__name__\<close> is the dotted path it was imported under.\<close>

definition import_one :: "string \<Rightarrow> pymodule \<Rightarrow> string \<Rightarrow> pyerror + pymodule" where
  "import_one path module p = (if p = path then Inr module else Inl ImportError)"

text \<open>\<^verbatim>\<open>plain.py\<close> binds nothing but a helper function.\<close>

definition plain_module :: pymodule where
  "plain_module =
     [''__name__'' \<mapsto> PyStr ''SMQTK.Indexers.plain'', ''helper'' \<mapsto> PyFunction ''helper'']"

definition plain_env :: pyenv where
  "plain_env =
     \<lparr>os_listdir = [''__init__.py'', ''plain.py''],
      py_import = import_one ''SMQTK.Indexers.plain'' plain_module\<rparr>"

text \<open>\<^verbatim>\<open>multi.py\<close> holds \<^verbatim>\<open>class Unrelated(object)\<close> and
  \<^verbatim>\<open>INDEXER_CLASS = [Unrelated]\<close>.\<close>

definition Unrelated :: pyobj where
  "Unrelated = PyClass ''SMQTK.Indexers.multi'' ''Unrelated'' [object_class]"

definition multi_module :: pymodule where
  "multi_module =
     [''__name__'' \<mapsto> PyStr ''SMQTK.Indexers.multi'', ''Unrelated'' \<mapsto> Unrelated,
      ''INDEXER_CLASS'' \<mapsto> PyList [Unrelated]]"

definition unvalidated_env :: pyenv where
  "unvalidated_env =
     \<lparr>os_listdir = [''multi.py''],
      py_import = import_one ''SMQTK.Indexers.multi'' multi_module\<rparr>"

text \<open>\<^verbatim>\<open>numbers.py\<close> holds \<^verbatim>\<open>INDEXER_CLASS = (1, 2)\<close>.\<close>

definition numbers_module :: pymodule where
  "numbers_module =
     [''__name__'' \<mapsto> PyStr ''SMQTK.Indexers.numbers'',
      ''INDEXER_CLASS'' \<mapsto> PyTuple [PyInt 1, PyInt 2]]"

text \<open>\<^verbatim>\<open>3dindex.py\<close> holds \<^verbatim>\<open>class Grid(Indexer)\<close> and \<^verbatim>\<open>INDEXER_CLASS = Grid\<close>.\<close>

definition Grid :: pyobj where
  "Grid = PyClass ''SMQTK.Indexers.3dindex'' ''Grid'' [Indexer]"

definition grid_module :: pymodule where
  "grid_module =
     [''__name__'' \<mapsto> PyStr ''SMQTK.Indexers.3dindex'', ''Grid'' \<mapsto> Grid,
      ''INDEXER_CLASS'' \<mapsto> Grid]"

definition digit_env :: pyenv where
  "digit_env =
     \<lparr>os_listdir = [''3dindex.py''],
      py_import = import_one ''SMQTK.Indexers.3dindex'' grid_module\<rparr>"

text \<open>\<^verbatim>\<open>foo.py\<close> holds \<^verbatim>\<open>class foo(object)\<close> and no \<^verbatim>\<open>INDEXER_CLASS\<close>.\<close>

definition foo_class :: pyobj where
  "foo_class = PyClass ''SMQTK.Indexers.foo'' ''foo'' [object_class]"

definition foo_module :: pymodule where
  "foo_module = [''__name__'' \<mapsto> PyStr ''SMQTK.Indexers.foo'', ''foo'' \<mapsto> foo_class]"

definition foo_env :: pyenv where
  "foo_env =
     \<lparr>os_listdir = [''foo.py''],
      py_import = import_one ''SMQTK.Indexers.foo'' foo_module\<rparr>"

text \<open>A module that rebinds its own \<^verbatim>\<open>__name__\<close> to \<^verbatim>\<open>odd\<close> and binds \<^verbatim>\<open>odd = 5\<close>.\<close>

definition odd_module :: pymodule where
  "odd_module = [''__name__'' \<mapsto> PyStr ''odd'', ''odd'' \<mapsto> PyInt 5]"





text \<open>Two candidates that each export a class named \<^verbatim>\<open>Same\<close>.\<close>

definition Same_first :: pyobj where
  "Same_first = PyClass ''SMQTK.Indexers.a'' ''Same'' [Indexer]"

definition Same_second :: pyobj where
  "Same_second = PyClass ''SMQTK.Indexers.b'' ''Same'' [Indexer]"

definition collide_env :: pyenv where
  "collide_env =
     \<lparr>os_listdir = [''a.py'', ''b.py''],
      py_import = (\<lambda>p.
        if p = ''SMQTK.Indexers.a''
        then Inr [''__name__'' \<mapsto> PyStr p, ''INDEXER_CLASS'' \<mapsto> Same_first]
        else if p = ''SMQTK.Indexers.b''
        then Inr [''__name__'' \<mapsto> PyStr p, ''INDEXER_CLASS'' \<mapsto> Same_second]
        else Inl ImportError)\<rparr>"

section \<open>A POSIX file system\<close>

text \<open>
  One platform for the examples: a tree of directories and regular files without symbolic
  links, in which the process may write everywhere. An absolute location is the list of
  names from the root; the root is always a directory.
\<close>

datatype node = Dir | File string

record filesystem =
  tree :: "string list \<rightharpoonup> node"
  cwd :: "string list"

definition node_at :: "filesystem \<Rightarrow> string list \<Rightarrow> node option" where
  "node_at fs loc = (if loc = [] then Some Dir else tree fs loc)"

text \<open>The components of a path, as \<^verbatim>\<open>p.split('/')\<close> gives them.\<close>

fun split_slash :: "string \<Rightarrow> string list" where
  "split_slash [] = [[]]"
| "split_slash (c # cs) =
     (if c = CHR ''/'' then [] # split_slash cs
      else (c # hd (split_slash cs)) # tl (split_slash cs))"

text \<open>Path resolution: every component is looked up in a directory; an empty component
  and \<^verbatim>\<open>.\<close> stay, \<^verbatim>\<open>..\<close> goes up. The location reached need not exist.\<close>

fun walk :: "filesystem \<Rightarrow> string list \<Rightarrow> string list \<Rightarrow> errno + string list" where
  "walk fs loc [] = Inr loc"
| "walk fs loc (c # cs) =
     (case node_at fs loc of
        None \<Rightarrow> Inl ENOENT
      | Some (File content) \<Rightarrow> Inl ENOTDIR
      | Some Dir \<Rightarrow>
          walk fs (if c = [] \<or> c = ''.'' then loc
                   else if c = ''..'' then butlast loc
                   else loc @ [c]) cs)"

definition start_of :: "filesystem \<Rightarrow> string \<Rightarrow> string list" where
  "start_of fs p = (if take 1 p = ''/'' then [] else cwd fs)"

definition os_stat :: "filesystem \<Rightarrow> string \<Rightarrow> errno + node" where
  "os_stat fs p =
     (if p = [] then Inl ENOENT
      else case walk fs (start_of fs p) (split_slash p) of
             Inl e \<Rightarrow> Inl e
           | Inr loc \<Rightarrow> (case node_at fs loc of None \<Rightarrow> Inl ENOENT | Some n \<Rightarrow> Inr n))"

definition posix_isdir :: "filesystem \<Rightarrow> string \<Rightarrow> bool" where
  "posix_isdir fs p = (os_stat fs p = Inr Dir)"

definition posix_exists :: "filesystem \<Rightarrow> string \<Rightarrow> bool" where
  "posix_exists fs p = (case os_stat fs p of Inl e \<Rightarrow> False | Inr n \<Rightarrow> True)"

text \<open>\<^verbatim>\<open>mkdir(2)\<close>: trailing slashes are dropped, the parent must be a directory, the last
  component must be a new name.\<close>

definition os_mkdir :: "filesystem \<Rightarrow> string \<Rightarrow> (errno + unit) \<times> filesystem" where
  "os_mkdir fs p =
     (if p = [] then (Inl ENOENT, fs)
      else
        (let comps = rev (dropWhile (\<lambda>c. c = []) (rev (split_slash p))) in
         if comps = [] then (Inl EEXIST, fs)
         else
           (case walk fs (start_of fs p) (butlast comps) of
              Inl e \<Rightarrow> (Inl e, fs)
            | Inr parent \<Rightarrow>
                (case node_at fs parent of
                   None \<Rightarrow> (Inl ENOENT, fs)
                 | Some (File content) \<Rightarrow> (Inl ENOTDIR, fs)
                 | Some Dir \<Rightarrow>
                     if last comps = ''.'' \<or> last comps = ''..'' then (Inl EEXIST, fs)
                     else if node_at fs (parent @ [last comps]) \<noteq> None then (Inl EEXIST, fs)
                     else (Inr (),
                           fs\<lparr>tree := (tree fs)(parent @ [last comps] \<mapsto> Dir)\<rparr>)))))"

text \<open>\<^verbatim>\<open>posixpath.split\<close>: head and tail around the last slash, the head without its
  trailing slashes unless it consists of slashes.\<close>

definition rstrip_slash :: "string \<Rightarrow> string" where
  "rstrip_slash s = rev (dropWhile (\<lambda>c. c = CHR ''/'') (rev s))"

definition posixpath_split :: "string \<Rightarrow> string \<times> string" where
  "posixpath_split p =
     (let i = nat (rfind (CHR ''/'') p + 1);
          head = take i p;
          tail = drop i p
      in (if head \<noteq> [] \<and> list_ex (\<lambda>c. c \<noteq> CHR ''/'') head then rstrip_slash head else head,
          tail))"

text \<open>
  \<^verbatim>\<open>os.makedirs\<close> of Python 2.7: \<^verbatim>\<open>head, tail = path.split(name)\<close>, once more on the head
  when the tail is empty; a missing head is made first, by recursion, and an
  \<^verbatim>\<open>EEXIST\<close> from there is passed over; then \<^verbatim>\<open>mkdir(name)\<close>, unless the tail is
  \<^verbatim>\<open>.\<close> and the head was just made.
\<close>

definition makedirs_split :: "string \<Rightarrow> string \<times> string" where
  "makedirs_split name =
     (case posixpath_split name of
        (head, tail) \<Rightarrow> if tail = [] then posixpath_split head else (head, tail))"

function posix_makedirs :: "filesystem \<Rightarrow> string \<Rightarrow> (errno + unit) \<times> filesystem" where
  "posix_makedirs fs name =
     (if fst (makedirs_split name) \<noteq> [] \<and> snd (makedirs_split name) \<noteq> [] \<and>
         \<not> posix_exists fs (fst (makedirs_split name))
      then
        (case posix_makedirs fs (fst (makedirs_split name)) of
           (Inl e, fs') \<Rightarrow>
             if e \<noteq> EEXIST then (Inl e, fs')
             else if snd (makedirs_split name) = ''.'' then (Inr (), fs')
             else os_mkdir fs' name
         | (Inr u, fs') \<Rightarrow>
             if snd (makedirs_split name) = ''.'' then (Inr (), fs')
             else os_mkdir fs' name)
      else os_mkdir fs name)"
  by pat_completeness auto
termination
proof -
  have strip: "length (rstrip_slash s) \<le> length s" for s
    unfolding rstrip_slash_def by (metis length_dropWhile_le length_rev)
  have head_le: "length (fst (posixpath_split p)) \<le> nat (rfind (CHR ''/'') p + 1)" for p
    using strip [of "take (nat (rfind (CHR ''/'') p + 1)) p"]
    by (auto simp: posixpath_split_def Let_def)
  have head_le': "length (fst (posixpath_split p)) \<le> length p" for p
    using strip [of "take (nat (rfind (CHR ''/'') p + 1)) p"]
    by (auto simp: posixpath_split_def Let_def)
  have head_less: "length (fst (posixpath_split p)) < length p"
    if "snd (posixpath_split p) \<noteq> []" for p
  proof -
    from that have "nat (rfind (CHR ''/'') p + 1) < length p"
      by (auto simp: posixpath_split_def Let_def)
    with head_le [of p] show ?thesis by simp
  qed
  have shorter: "length (fst (makedirs_split name)) < length name"
    if "snd (makedirs_split name) \<noteq> []" for name
  proof (cases "snd (posixpath_split name) = []")
    case True
    then have eq: "makedirs_split name = posixpath_split (fst (posixpath_split name))"
      by (cases "posixpath_split name") (simp add: makedirs_split_def)
    with that have "length (fst (makedirs_split name)) < length (fst (posixpath_split name))"
      using head_less by simp
    with head_le' [of name] show ?thesis by simp
  next
    case False
    then have "makedirs_split name = posixpath_split name"
      by (cases "posixpath_split name") (simp add: makedirs_split_def)
    with False head_less show ?thesis by simp
  qed
  show ?thesis
    by (relation "measure (\<lambda>(fs, name). length name)") (auto simp: shorter)
qed

definition posix :: "filesystem os_module" where
  "posix = \<lparr>os_path_isdir = posix_isdir, os_makedirs = posix_makedirs\<rparr>"

text \<open>An instance; an empty file system; one that holds the data directory with a
  persisted model file; one in which the data path is a regular file; and the file
  system after \<^verbatim>\<open>/data/idx\<close> has been made in the empty one.\<close>

definition an_indexer :: indexer where
  "an_indexer = init_indexer ''/data/idx'' ''/work/idx''"

definition empty_fs :: filesystem where
  "empty_fs = \<lparr>tree = Map.empty, cwd = []\<rparr>"


definition blocked_fs :: filesystem where
  "blocked_fs =
     \<lparr>tree = [[''data''] \<mapsto> Dir, [''data'', ''idx''] \<mapsto> File ''notes''], cwd = []\<rparr>"

definition created_fs :: filesystem where
  "created_fs = \<lparr>tree = [[''data''] \<mapsto> Dir, [''data'', ''idx''] \<mapsto> Dir], cwd = []\<rparr>"

text \<open>Two implementations of \<^verbatim>\<open>has_model\<close>: the model file is there; and the indexer that
  needs no model, for which the docstring of \<^verbatim>\<open>has_model\<close> asks for True.\<close>

definition file_has_model :: "indexer \<Rightarrow> filesystem \<Rightarrow> bool" where
  "file_has_model self fs =
     (case os_stat fs (priv_data_dir self @ ''/model.bin'') of
        Inr (File content) \<Rightarrow> True
      | _ \<Rightarrow> False)"


section \<open>The lifecycle preconditions of the base class\<close>

lemmas posix_defs =
  posix_def posix_isdir_def posix_exists_def os_stat_def start_of_def node_at_def
  os_mkdir_def makedirs_split_def posixpath_split_def rstrip_slash_def Let_def
  posix_makedirs.simps

declare posix_makedirs.simps [simp del]

lemma an_indexer_paths:
  "priv_data_dir an_indexer = ''/data/idx'' \<and> priv_work_dir an_indexer = ''/work/idx''"
  by (simp add: an_indexer_def init_indexer_def)


lemma an_indexer_no_model: "\<not> file_has_model an_indexer empty_fs"
  by (simp add: file_has_model_def an_indexer_paths empty_fs_def os_stat_def start_of_def
      node_at_def)


lemma blocked_fs_makedirs:
  "\<not> os_path_isdir posix blocked_fs ''/data/idx'' \<and>
   os_makedirs posix blocked_fs ''/data/idx'' = (Inl EEXIST, blocked_fs)"
  by (simp add: posix_defs blocked_fs_def)

lemma empty_fs_makedirs:
  "\<not> os_path_isdir posix empty_fs ''/data/idx'' \<and>
   os_makedirs posix empty_fs ''/data/idx'' = (Inr (), created_fs)"
  by (simp add: posix_defs empty_fs_def created_fs_def)

lemma created_fs_data_dir_present: "os_path_isdir posix created_fs ''/data/idx''"
  by (simp add: posix_defs created_fs_def)

text \<open>On this platform neither \<^verbatim>\<open>mkdir\<close> nor \<^verbatim>\<open>os.makedirs\<close> touches a regular file,
  whether the call succeeds or fails; so \<^verbatim>\<open>generate_model\<close> leaves every persisted file
  as it is.\<close>

lemma os_mkdir_keeps_files:
  assumes "os_mkdir fs p = (r, fs')"
  shows "(tree fs' loc = Some (File content)) = (tree fs loc = Some (File content)) \<and>
         cwd fs' = cwd fs"
  using assms
  by (auto simp: os_mkdir_def Let_def node_at_def
      split: if_splits sum.splits option.splits node.splits)

lemma posix_makedirs_keeps_files:
  "posix_makedirs fs name = (r, fs') \<Longrightarrow>
   (tree fs' loc = Some (File content)) = (tree fs loc = Some (File content)) \<and>
   cwd fs' = cwd fs"
proof (induction fs name arbitrary: r fs' rule: posix_makedirs.induct)
  case (1 fs name)
  show ?case
  proof (cases "fst (makedirs_split name) \<noteq> [] \<and> snd (makedirs_split name) \<noteq> [] \<and>
         \<not> posix_exists fs (fst (makedirs_split name))")
    case False
    with "1.prems" have "os_mkdir fs name = (r, fs')"
      by (subst (asm) posix_makedirs.simps) auto
    then show ?thesis by (rule os_mkdir_keeps_files)
  next
    case True
    obtain r1 fs1 where made: "posix_makedirs fs (fst (makedirs_split name)) = (r1, fs1)"
      by (cases "posix_makedirs fs (fst (makedirs_split name))")
    from "1.IH" [OF True made]
    have kept: "(tree fs1 loc = Some (File content)) = (tree fs loc = Some (File content)) \<and>
        cwd fs1 = cwd fs"
      by simp
    from "1.prems" True made
    have "(r, fs') = (r1, fs1) \<or> (r, fs') = (Inr (), fs1) \<or> os_mkdir fs1 name = (r, fs')"
      by (subst (asm) posix_makedirs.simps) (auto split: sum.splits if_splits)
    then show ?thesis
      using kept os_mkdir_keeps_files [of fs1 name r fs' loc content] by auto
  qed
qed

lemma generate_model_posix_keeps_files:
  assumes "generate_model posix has_model self feature_map parallel fs = (r, self', fs')"
  shows "(tree fs' loc = Some (File content)) = (tree fs loc = Some (File content))"
proof -
  obtain r1 fs1 where made: "posix_makedirs fs (priv_data_dir self) = (r1, fs1)"
    by (cases "posix_makedirs fs (priv_data_dir self)")
  from assms made have "fs' = fs \<or> fs' = fs1"
    by (auto simp: generate_model_def data_dir_def posix_def split: if_splits sum.splits)
  with posix_makedirs_keeps_files [OF made, of loc content] show ?thesis by auto
qed




text \<open>
  Claim C5. On an instance whose \<^verbatim>\<open>has_model()\<close> is false, \<^verbatim>\<open>extend_model\<close>,
  \<^verbatim>\<open>rank_model\<close> and \<^verbatim>\<open>reset\<close> each raise a \<^verbatim>\<open>RuntimeError\<close> (the
  specification's NoModelError) and leave the instance and the file system as they were.
\<close>

theorem no_model_operations_fail:
  assumes "\<not> has_model self fs"
  shows "extend_model has_model self id_feature_map parallel fs =
           (Inl (RuntimeError [''No model available for this indexer.'']), self, fs) \<and>
         rank_model has_model self pos_ids neg_ids fs =
           (Inl (RuntimeError [''No model available for this indexer.'']), self, fs) \<and>
         reset has_model self fs =
           (Inl (RuntimeError [''No model available for this indexer to reset to.'']),
            self, fs)"
  using assms by (simp add: extend_model_def rank_model_def reset_def)

theorem no_model_operations_fail_witness:
  "\<not> file_has_model an_indexer empty_fs \<and>
   extend_model file_has_model an_indexer [(7::int, [2::int])] None empty_fs =
     (Inl (RuntimeError [''No model available for this indexer.'']), an_indexer, empty_fs) \<and>
   rank_model file_has_model an_indexer [7] [] empty_fs =
     (Inl (RuntimeError [''No model available for this indexer.'']), an_indexer, empty_fs) \<and>
   reset file_has_model an_indexer empty_fs =
     (Inl (RuntimeError [''No model available for this indexer to reset to.'']),
      an_indexer, empty_fs)"
  using no_model_operations_fail [where has_model = file_has_model and self = an_indexer
      and fs = empty_fs and id_feature_map = "[(7::int, [2::int])]" and parallel = None
      and pos_ids = "[7]" and neg_ids = "[]"]
    an_indexer_no_model
  by simp

text \<open>
  Claim C6. On an instance with no model, \<^verbatim>\<open>generate_model\<close> with an empty feature map
  raises the \<^verbatim>\<open>ValueError\<close> of line 132 (the specification's EmptyInputError); the
  instance and the file system are untouched, and \<^verbatim>\<open>has_model()\<close> is still false.
\<close>

theorem generate_model_empty_input:
  assumes "\<not> has_model self fs"
  shows "case generate_model os has_model self [] parallel fs of
           (result, self', fs') \<Rightarrow>
             result = Inl (ValueError [''The given feature_map has no content.'']) \<and>
             self' = self \<and> fs' = fs \<and> \<not> has_model self' fs'"
  using assms by (simp add: generate_model_def)

theorem generate_model_empty_input_witness:
  "\<not> file_has_model an_indexer empty_fs \<and>
   generate_model posix file_has_model an_indexer ([] :: (int \<times> int list) list) None empty_fs =
     (Inl (ValueError [''The given feature_map has no content.'']), an_indexer, empty_fs)"
proof -
  note empty = generate_model_empty_input [where has_model = file_has_model
      and self = an_indexer and fs = empty_fs and os = posix and parallel = None,
      OF an_indexer_no_model]
  have triple: "x = (r, s, f)"
    if "case x of (result, self', fs') \<Rightarrow>
          result = r \<and> self' = s \<and> fs' = f \<and> \<not> file_has_model self' fs'"
    for x :: "(pyerror + unit) \<times> indexer \<times> filesystem" and r s f
    using that by (auto split: prod.splits)
  have "generate_model posix file_has_model an_indexer ([] :: (int \<times> int list) list) None
          empty_fs =
        (Inl (ValueError [''The given feature_map has no content.'']), an_indexer, empty_fs)"
    by (rule triple [OF empty])
  with an_indexer_no_model show ?thesis by simp
qed




section \<open>The directory properties\<close>

text \<open>
  Claim C9, as amended. For the instance that \<^verbatim>\<open>__init__\<close> builds from the paths
  \<open>d\<close> and \<open>w\<close>: when the directory exists, reading \<^verbatim>\<open>data_dir\<close> returns \<open>d\<close>, calls
  nothing and raises nothing, so a repeated read changes nothing; when it does not
  exist, the property calls \<^verbatim>\<open>os.makedirs\<close> on \<open>d\<close>, returns \<open>d\<close> if that succeeds and
  raises its \<^verbatim>\<open>OSError\<close> if it fails. Likewise \<^verbatim>\<open>work_dir\<close> with \<open>w\<close>. This holds for
  every behaviour of the platform.
\<close>

theorem directory_properties_ensure:
  "(os_path_isdir os fs d \<longrightarrow> data_dir os (init_indexer d w) fs = (Inr d, fs)) \<and>
   (\<not> os_path_isdir os fs d \<longrightarrow>
      data_dir os (init_indexer d w) fs =
        (case os_makedirs os fs d of
           (Inr u, fs') \<Rightarrow> (Inr d, fs')
         | (Inl e, fs') \<Rightarrow> (Inl (OSError e), fs'))) \<and>
   (os_path_isdir os fs w \<longrightarrow> work_dir os (init_indexer d w) fs = (Inr w, fs)) \<and>
   (\<not> os_path_isdir os fs w \<longrightarrow>
      work_dir os (init_indexer d w) fs =
        (case os_makedirs os fs w of
           (Inr u, fs') \<Rightarrow> (Inr w, fs')
         | (Inl e, fs') \<Rightarrow> (Inl (OSError e), fs')))"
  by (auto simp: data_dir_def work_dir_def init_indexer_def split: prod.splits sum.splits)

text \<open>The first read makes \<^verbatim>\<open>/data\<close> and \<^verbatim>\<open>/data/idx\<close>; the second finds the directory
  and changes nothing.\<close>

theorem directory_properties_ensure_witness:
  "\<not> os_path_isdir posix empty_fs ''/data/idx'' \<and>
   data_dir posix (init_indexer ''/data/idx'' ''/work/idx'') empty_fs =
     (Inr ''/data/idx'', created_fs) \<and>
   os_path_isdir posix created_fs ''/data/idx'' \<and>
   data_dir posix (init_indexer ''/data/idx'' ''/work/idx'') created_fs =
     (Inr ''/data/idx'', created_fs)"
  using directory_properties_ensure [of posix empty_fs "''/data/idx''" "''/work/idx''"]
    directory_properties_ensure [of posix created_fs "''/data/idx''" "''/work/idx''"]
    empty_fs_makedirs created_fs_data_dir_present
  by simp

text \<open>The claim as it was stated fails where the path is a regular file: the read raises
  the \<^verbatim>\<open>OSError\<close> of \<^verbatim>\<open>os.makedirs\<close> and returns no path.\<close>

theorem directory_properties_ensure_counterexample:
  "\<not> os_path_isdir posix blocked_fs ''/data/idx'' \<and>
   data_dir posix (init_indexer ''/data/idx'' ''/work/idx'') blocked_fs =
     (Inl (OSError EEXIST), blocked_fs)"
  using blocked_fs_makedirs by (simp add: data_dir_def init_indexer_def)

lemma work_dir_empty_path:
  "work_dir posix (init_indexer ''/data/idx'' []) empty_fs = (Inl (OSError ENOENT), empty_fs)"
  by (simp add: work_dir_def init_indexer_def posix_defs empty_fs_def)

section \<open>Discovery\<close>

lemmas discovery_defs =
  get_indexers_def file_re_match_def is_ascii_letter_def os_path_splitext_def
  package_name_def load_cl_classes_def hasattr_def getattr_def standard_var_def
  import_one_def Let_def Indexer_def object_class_def

subsection \<open>Which entries are candidates\<close>

lemma underscore_entry_ignored:
  "get_indexers_loop import ((CHR ''_'' # cs) # rest) class_map =
   get_indexers_loop import rest class_map"
  by (simp add: file_re_match_def is_ascii_letter_def)

lemma letter_entry_is_candidate:
  "file_re_match ''foo.py'' \<and> file_re_match ''Foo'' \<and> \<not> file_re_match ''_helpers.py''"
  by (simp add: file_re_match_def is_ascii_letter_def)

text \<open>
  Claim C3 says that an entry is a candidate exactly when its name starts with an ASCII
  letter or a digit, and that an entry with a leading underscore is ignored. The second
  half holds (\<open>underscore_entry_ignored\<close>). The first does not: \<^verbatim>\<open>file_re\<close> starts with
  \<^verbatim>\<open>[a-zA-Z]\<close>, so the entry \<^verbatim>\<open>3dindex.py\<close> is no candidate. Its module, which exports
  the indexer class \<^verbatim>\<open>Grid\<close> through \<^verbatim>\<open>INDEXER_CLASS\<close>, is never imported, and discovery
  returns an empty registry.
\<close>

theorem get_indexers_skips_digit_entry:
  "\<not> file_re_match ''3dindex.py'' \<and>
   load_cl_classes ''3dindex'' grid_module = Inr [Grid] \<and>
   get_indexers digit_env = Inr Map.empty"
  by (simp add: discovery_defs digit_env_def grid_module_def Grid_def)

subsection \<open>What a candidate exports\<close>

lemma load_cl_classes_nothing_found:
  assumes "\<not> hasattr module standard_var"
    and "module ''__name__'' = Some (PyStr own_name)"
    and "\<not> hasattr module own_name"
  shows "load_cl_classes module_name module = Inr []"
  using assms by (simp add: load_cl_classes_def)

text \<open>
  Claim C1 says that a candidate with neither an \<^verbatim>\<open>INDEXER_CLASS\<close> marker nor a symbol
  named like the module makes discovery fail. The code has no such branch: \<^verbatim>\<open>cl_classes\<close>
  stays the empty list (\<open>load_cl_classes_nothing_found\<close>), the loop of line 270 runs
  over nothing, and discovery goes on. For the directory with \<^verbatim>\<open>plain.py\<close> it returns
  normally, with an empty registry.
\<close>

theorem get_indexers_silent_on_no_export:
  "file_re_match ''plain.py'' \<and>
   py_import plain_env (package_name @ ''.'' @ fst (os_path_splitext ''plain.py'')) =
     Inr plain_module \<and>
   \<not> hasattr plain_module standard_var \<and>
   \<not> hasattr plain_module ''plain'' \<and>
   \<not> hasattr plain_module ''SMQTK.Indexers.plain'' \<and>
   get_indexers plain_env = Inr Map.empty"
  by (simp add: discovery_defs plain_env_def plain_module_def)

lemma single_marker_is_validated:
  assumes "module standard_var = Some (PyClass m n bs)"
    and "\<not> is_subclass_of (PyClass m n bs) Indexer"
  shows "load_cl_classes module_name module =
           Inl (RuntimeError [''[%s] %s variable not set to a valid value.'', module_name])"
  using assms by (simp add: load_cl_classes_def hasattr_def getattr_def)

text \<open>
  Claim C2 says that every member of a list or tuple held by \<^verbatim>\<open>INDEXER_CLASS\<close> is
  validated before it is registered. The code validates a single class
  (\<open>single_marker_is_validated\<close>) but takes a list or tuple as it is: the class
  \<^verbatim>\<open>Unrelated\<close>, which does not derive from \<^verbatim>\<open>Indexer\<close>, is registered under its name,
  and discovery returns normally.
\<close>

theorem get_indexers_registers_unvalidated_member:
  "hasattr multi_module standard_var \<and>
   getattr multi_module standard_var PyNone = PyList [Unrelated] \<and>
   issubclass Unrelated Indexer = Inr False \<and>
   get_indexers unvalidated_env = Inr [''Unrelated'' \<mapsto> Unrelated]"
  by (simp add: discovery_defs unvalidated_env_def Unrelated_def multi_module_def)

text \<open>A member without a \<^verbatim>\<open>__name__\<close> stops discovery at line 271, with an
  \<^verbatim>\<open>AttributeError\<close> rather than the \<^verbatim>\<open>RuntimeError\<close> of the validation.\<close>

lemma get_indexers_member_without_name:
  "get_indexers \<lparr>os_listdir = [''numbers.py''],
      py_import = import_one ''SMQTK.Indexers.numbers'' numbers_module\<rparr> =
   Inl AttributeError"
  by (simp add: discovery_defs numbers_module_def)

lemma same_named_class_is_validated:
  assumes "\<not> hasattr module standard_var"
    and "module ''__name__'' = Some (PyStr own_name)"
    and "module own_name = Some (PyClass m n bs)"
    and "\<not> is_subclass_of (PyClass m n bs) Indexer"
  shows "load_cl_classes module_name module =
           Inl (RuntimeError
             [''[%s] Failed to find valid class by module name'', module_name])"
  using assms by (simp add: load_cl_classes_def hasattr_def getattr_def)

lemma same_named_value_type_error:
  "load_cl_classes ''odd'' odd_module = Inl TypeError"
  by (simp add: discovery_defs odd_module_def)

text \<open>
  Claim C7 says that a candidate without a marker whose same-named symbol is not an
  indexer type makes discovery fail. Line 259 looks the symbol up under
  \<^verbatim>\<open>module.__name__\<close>, which for a module of this package is the dotted path
  (\<^verbatim>\<open>SMQTK.Indexers.foo\<close>), not the name \<^verbatim>\<open>foo\<close> that the file and its class carry. So for
  \<^verbatim>\<open>foo.py\<close> with \<^verbatim>\<open>class foo(object)\<close> the lookup finds nothing, no error is raised,
  and discovery returns normally with an empty registry.
\<close>

theorem get_indexers_misses_same_named_class:
  "fst (os_path_splitext ''foo.py'') = ''foo'' \<and>
   \<not> hasattr foo_module standard_var \<and>
   foo_module ''foo'' = Some foo_class \<and>
   issubclass foo_class Indexer = Inr False \<and>
   foo_module ''__name__'' = Some (PyStr ''SMQTK.Indexers.foo'') \<and>
   get_indexers foo_env = Inr Map.empty"
  by (simp add: discovery_defs foo_env_def foo_module_def foo_class_def)

subsection \<open>The registry\<close>





lemma collide_env_registry:
  "get_indexers collide_env = Inr [''Same'' \<mapsto> Same_second]"
  by (simp add: discovery_defs collide_env_def Same_first_def Same_second_def)



end
